theory Spec2Isabelle
  imports
    Complex_Main
    "HOL-Library.Char_ord"
    "HOL-Library.List_Lexorder"
    "HOL-Library.Product_Lexorder"
    "HOL-Library.AList"
    "HOL-Library.Multiset"
begin

section \<open>Fiscal device management service: receipt pipeline and fiscal-day controller\<close>

text \<open>
  Conventions of the embedding.

  \<^item> A Go \<open>string\<close> and a Go \<open>[]byte\<close> are both byte sequences: \<open>string\<close> (a list of
    8-bit characters). A nil slice and an empty slice are both \<open>[]\<close>; the code only ever
    appends them to a builder, where they behave alike.
  \<^item> Go \<open>int\<close> and \<open>int64\<close> values are \<open>int\<close>; the three places where the code adds 1 to
    one write the 64-bit wrap-around out (\<open>wrap64\<close>).
  \<^item> Go \<open>float64\<close> amounts are exact real numbers (\<open>real\<close>). The model is exact wherever the
    float operation is exact (in particular on the dyadic inputs used in the closed
    examples); binary rounding error of \<open>x * 100\<close> on other inputs is not modelled.
  \<^item> A pointer field that may be nil is an \<open>option\<close>.
  \<^item> \<open>crypto/sha256\<close>, \<open>encoding/base64\<close>, the server's signing key, the clock and the
    UUID generator belong to the environment: they are fields of \<open>Env\<close>.
  \<^item> A repository call is modelled by the meaning of the SQL text it issues, on tables
    with the constraints of \<open>migrations/000001_initial_schema.up.sql\<close>. Failures below
    that level (lost connections, driver scan errors) are outside the model.
\<close>

subsection \<open>Go primitives\<close>

definition wrap64 :: "int \<Rightarrow> int" where
  "wrap64 n = (n + 2 ^ 63) mod 2 ^ 64 - 2 ^ 63"

definition digit_char :: "nat \<Rightarrow> char" where
  "digit_char d = ''0123456789'' ! d"

fun dec_nat :: "nat \<Rightarrow> string" where
  "dec_nat n = (if n < 10 then [digit_char n] else dec_nat (n div 10) @ [digit_char (n mod 10)])"

declare dec_nat.simps [simp del]

text \<open>\<open>strconv.Itoa\<close> and \<open>strconv.FormatInt(_, 10)\<close>.\<close>

definition Itoa :: "int \<Rightarrow> string" where
  "Itoa i = (if i < 0 then CHR ''-'' # dec_nat (nat (- i)) else dec_nat (nat i))"

text \<open>
  \<open>strings.ToUpper\<close>, on the ASCII letters. Bytes outside \<open>a\<close>..\<open>z\<close> are kept; the Unicode
  case mapping of multi-byte runes is not modelled.
\<close>

definition upper_char :: "char \<Rightarrow> char" where
  "upper_char c =
     (case map_of (zip ''abcdefghijklmnopqrstuvwxyz'' ''ABCDEFGHIJKLMNOPQRSTUVWXYZ'') c of
        Some u \<Rightarrow> u
      | None \<Rightarrow> c)"

definition ToUpper :: "string \<Rightarrow> string" where
  "ToUpper s = map upper_char s"

text \<open>
  The conversion \<open>int64(f)\<close> of a float: the fraction is discarded (truncation toward
  zero). Out of the 64-bit range the amd64 conversion yields the minimal value.
\<close>

definition trunc_zero :: "real \<Rightarrow> int" where
  "trunc_zero x = (if x < 0 then - \<lfloor>- x\<rfloor> else \<lfloor>x\<rfloor>)"

definition int64_of_float :: "real \<Rightarrow> int" where
  "int64_of_float x =
     (let t = trunc_zero x in if - (2 ^ 63) \<le> t \<and> t < 2 ^ 63 then t else - (2 ^ 63))"

text \<open>The idiom \<open>strconv.FormatInt(int64(v * 100), 10)\<close> of the codec.\<close>

definition cents :: "real \<Rightarrow> string" where
  "cents v = Itoa (int64_of_float (v * 100))"

text \<open>
  \<open>fmt.Sprintf("%.2f", x)\<close>: the nearest value with two decimals, ties to even, with the
  sign of \<open>x\<close> kept even when the digits are all zero.
\<close>

definition round_half_even :: "real \<Rightarrow> int" where
  "round_half_even x =
     (let f = \<lfloor>x\<rfloor>; d = x - of_int f in
      if d < 1 / 2 then f else if 1 / 2 < d then f + 1 else if even f then f else f + 1)"

definition Sprintf_2f :: "real \<Rightarrow> string" where
  "Sprintf_2f x =
     (let n = nat (round_half_even (\<bar>x\<bar> * 100)) in
      (if x < 0 then ''-'' else '''') @ dec_nat (n div 100) @ ''.'' @
      [digit_char (n mod 100 div 10), digit_char (n mod 10)])"

text \<open>\<open>time.Time\<close> as the wall-clock reading that \<open>Format\<close> prints.\<close>

record Time =
  t_year :: nat
  t_month :: nat
  t_day :: nat
  t_hour :: nat
  t_minute :: nat
  t_second :: nat

definition two_digits :: "nat \<Rightarrow> string" where
  "two_digits n = (if n < 10 then CHR ''0'' # dec_nat n else dec_nat n)"

definition four_digits :: "nat \<Rightarrow> string" where
  "four_digits n = replicate (4 - length (dec_nat n)) (CHR ''0'') @ dec_nat n"

text \<open>\<open>t.Format("2006-01-02")\<close> and \<open>t.Format("2006-01-02T15:04:05")\<close>.\<close>

definition Format_date :: "Time \<Rightarrow> string" where
  "Format_date t = four_digits (t_year t) @ ''-'' @ two_digits (t_month t) @ ''-'' @ two_digits (t_day t)"

definition Format_datetime :: "Time \<Rightarrow> string" where
  "Format_datetime t =
     Format_date t @ ''T'' @ two_digits (t_hour t) @ '':'' @ two_digits (t_minute t) @ '':'' @
     two_digits (t_second t)"

text \<open>
  \<open>sort.Slice\<close>: on at most 12 elements Go runs this insertion sort (an element moves
  left while it is \<open>less\<close> than its left neighbour); the sorted prefix is kept reversed.
  Longer slices are sorted by pdqsort, whose result is the same whenever \<open>less\<close> orders
  the elements strictly.
\<close>

fun insert_left :: "('a \<Rightarrow> 'a \<Rightarrow> bool) \<Rightarrow> 'a \<Rightarrow> 'a list \<Rightarrow> 'a list" where
  "insert_left lt x [] = [x]"
| "insert_left lt x (y # ys) = (if lt x y then y # insert_left lt x ys else x # y # ys)"

definition sort_Slice :: "('a \<Rightarrow> 'a \<Rightarrow> bool) \<Rightarrow> 'a list \<Rightarrow> 'a list" where
  "sort_Slice lt xs = rev (foldl (\<lambda>acc x. insert_left lt x acc) [] xs)"

subsection \<open>Enumerations (\<open>internal/models/enums.go\<close>)\<close>

datatype DeviceOperatingMode = DeviceOperatingModeOnline | DeviceOperatingModeOffline

datatype FiscalDayStatus =
  FiscalDayStatusClosed | FiscalDayStatusOpened | FiscalDayStatusCloseInitiated
  | FiscalDayStatusCloseFailed

fun FiscalDayStatus_String :: "FiscalDayStatus \<Rightarrow> string" where
  "FiscalDayStatus_String FiscalDayStatusClosed = ''FiscalDayClosed''"
| "FiscalDayStatus_String FiscalDayStatusOpened = ''FiscalDayOpened''"
| "FiscalDayStatus_String FiscalDayStatusCloseInitiated = ''FiscalDayCloseInitiated''"
| "FiscalDayStatus_String FiscalDayStatusCloseFailed = ''FiscalDayCloseFailed''"

datatype FiscalDayReconciliationMode =
  FiscalDayReconciliationModeAuto | FiscalDayReconciliationModeManual

fun FiscalDayReconciliationMode_String :: "FiscalDayReconciliationMode \<Rightarrow> string" where
  "FiscalDayReconciliationMode_String FiscalDayReconciliationModeAuto = ''Auto''"
| "FiscalDayReconciliationMode_String FiscalDayReconciliationModeManual = ''Manual''"

datatype FiscalCounterType =
  FiscalCounterTypeSaleByTax | FiscalCounterTypeSaleTaxByTax | FiscalCounterTypeCreditNoteByTax
  | FiscalCounterTypeCreditNoteTaxByTax | FiscalCounterTypeDebitNoteByTax
  | FiscalCounterTypeDebitNoteTaxByTax | FiscalCounterTypeBalanceByMoneyType

fun FiscalCounterType_String :: "FiscalCounterType \<Rightarrow> string" where
  "FiscalCounterType_String FiscalCounterTypeSaleByTax = ''SaleByTax''"
| "FiscalCounterType_String FiscalCounterTypeSaleTaxByTax = ''SaleTaxByTax''"
| "FiscalCounterType_String FiscalCounterTypeCreditNoteByTax = ''CreditNoteByTax''"
| "FiscalCounterType_String FiscalCounterTypeCreditNoteTaxByTax = ''CreditNoteTaxByTax''"
| "FiscalCounterType_String FiscalCounterTypeDebitNoteByTax = ''DebitNoteByTax''"
| "FiscalCounterType_String FiscalCounterTypeDebitNoteTaxByTax = ''DebitNoteTaxByTax''"
| "FiscalCounterType_String FiscalCounterTypeBalanceByMoneyType = ''BalanceByMoneyType''"

text \<open>The \<open>iota\<close> position of a counter type, the integer that the wire format carries.\<close>

fun FiscalCounterType_int :: "FiscalCounterType \<Rightarrow> int" where
  "FiscalCounterType_int FiscalCounterTypeSaleByTax = 0"
| "FiscalCounterType_int FiscalCounterTypeSaleTaxByTax = 1"
| "FiscalCounterType_int FiscalCounterTypeCreditNoteByTax = 2"
| "FiscalCounterType_int FiscalCounterTypeCreditNoteTaxByTax = 3"
| "FiscalCounterType_int FiscalCounterTypeDebitNoteByTax = 4"
| "FiscalCounterType_int FiscalCounterTypeDebitNoteTaxByTax = 5"
| "FiscalCounterType_int FiscalCounterTypeBalanceByMoneyType = 6"

datatype MoneyType =
  MoneyTypeCash | MoneyTypeCard | MoneyTypeMobileWallet | MoneyTypeCoupon | MoneyTypeCredit
  | MoneyTypeBankTransfer | MoneyTypeOther

fun MoneyType_String :: "MoneyType \<Rightarrow> string" where
  "MoneyType_String MoneyTypeCash = ''Cash''"
| "MoneyType_String MoneyTypeCard = ''Card''"
| "MoneyType_String MoneyTypeMobileWallet = ''MobileWallet''"
| "MoneyType_String MoneyTypeCoupon = ''Coupon''"
| "MoneyType_String MoneyTypeCredit = ''Credit''"
| "MoneyType_String MoneyTypeBankTransfer = ''BankTransfer''"
| "MoneyType_String MoneyTypeOther = ''Other''"

fun MoneyType_int :: "MoneyType \<Rightarrow> int" where
  "MoneyType_int MoneyTypeCash = 0"
| "MoneyType_int MoneyTypeCard = 1"
| "MoneyType_int MoneyTypeMobileWallet = 2"
| "MoneyType_int MoneyTypeCoupon = 3"
| "MoneyType_int MoneyTypeCredit = 4"
| "MoneyType_int MoneyTypeBankTransfer = 5"
| "MoneyType_int MoneyTypeOther = 6"

datatype ReceiptType = ReceiptTypeFiscalInvoice | ReceiptTypeCreditNote | ReceiptTypeDebitNote

fun ReceiptType_String :: "ReceiptType \<Rightarrow> string" where
  "ReceiptType_String ReceiptTypeFiscalInvoice = ''FiscalInvoice''"
| "ReceiptType_String ReceiptTypeCreditNote = ''CreditNote''"
| "ReceiptType_String ReceiptTypeDebitNote = ''DebitNote''"

datatype ValidationColor = ValidationColorGrey | ValidationColorYellow | ValidationColorRed


subsection \<open>Receipts and counters (\<open>internal/models\<close>)\<close>

record SignatureData =
  Hash :: string
  Signature :: string

record SignatureDataEx = SignatureData +
  CertificateThumbprint :: string

record ReceiptTax =
  TaxCode :: "string option"
  TaxPercent :: "real option"
  TaxID :: int
  TaxAmount :: real
  SalesAmountWithTax :: real

record Payment =
  MoneyTypeCode :: int
  PaymentAmount :: real

text \<open>
  \<open>models.Receipt\<close>, used by the code both as the submitted payload and as the stored
  row. The fields that only the later validation rules read (lines, buyer, notes, the
  credit/debit reference, invoice number, print form) are left out.
\<close>

record Receipt =
  Receipt_ID :: int
  ReceiptID :: int
  Receipt_DeviceID :: int
  FiscalDayID :: int
  ReceiptType :: ReceiptType
  ReceiptCurrency :: string
  ReceiptCounter :: int
  ReceiptGlobalNo :: int
  ReceiptDate :: Time
  ReceiptTaxes :: "ReceiptTax list"
  ReceiptPayments :: "Payment list"
  ReceiptTotal :: real
  ReceiptDeviceSignature :: SignatureData
  ReceiptServerSignature :: "SignatureDataEx option"
  ReceiptHash :: string
  ValidationColor :: "ValidationColor option"
  ValidationErrors :: "string list"
  ServerDate :: "Time option"

text \<open>
  \<open>models.FiscalDayCounter\<close> as the code compiles it: counter type and money type are
  plain integers.
\<close>

record FiscalDayCounter =
  FiscalCounterType :: int
  FiscalCounterCurrency :: string
  FiscalCounterTaxID :: "int option"
  FiscalCounterTaxPercent :: "real option"
  FiscalCounterMoneyType :: "int option"
  FiscalCounterValue :: real

subsection \<open>Canonical codec (\<open>internal/utils/signature.go\<close>)\<close>

definition tax_code_or_empty :: "ReceiptTax \<Rightarrow> string" where
  "tax_code_or_empty t = (case TaxCode t of None \<Rightarrow> [] | Some c \<Rightarrow> c)"

text \<open>The \<open>less\<close> closure given to \<open>sort.Slice\<close> for the receipt taxes.\<close>

definition tax_less :: "ReceiptTax \<Rightarrow> ReceiptTax \<Rightarrow> bool" where
  "tax_less a b =
     (if TaxID a \<noteq> TaxID b then TaxID a < TaxID b
      else tax_code_or_empty a < tax_code_or_empty b)"

text \<open>The body of the loop over the sorted taxes: four writes to the builder.\<close>

definition write_tax :: "string \<Rightarrow> ReceiptTax \<Rightarrow> string" where
  "write_tax sb tax =
     (let sb = (case TaxCode tax of None \<Rightarrow> sb | Some c \<Rightarrow> sb @ c);
          sb = (case TaxPercent tax of None \<Rightarrow> sb | Some p \<Rightarrow> sb @ Sprintf_2f p);
          sb = sb @ cents (TaxAmount tax);
          sb = sb @ cents (SalesAmountWithTax tax)
      in sb)"

text \<open>
  The builder's content at the end of \<open>GenerateReceiptHash\<close>, before hashing. A
  \<open>previousHash\<close> that is nil is \<open>[]\<close> here; writing it adds nothing.
\<close>

definition GenerateReceiptHash_data :: "Receipt \<Rightarrow> string \<Rightarrow> string" where
  "GenerateReceiptHash_data receipt previousHash =
     (let sb = [];
          sb = sb @ Itoa (Receipt_DeviceID receipt);
          sb = sb @ ToUpper (ReceiptType_String (ReceiptType receipt));
          sb = sb @ ToUpper (ReceiptCurrency receipt);
          sb = sb @ Itoa (ReceiptGlobalNo receipt);
          sb = sb @ Format_datetime (ReceiptDate receipt);
          sb = sb @ cents (ReceiptTotal receipt);
          sortedTaxes = sort_Slice tax_less (ReceiptTaxes receipt);
          sb = foldl write_tax sb sortedTaxes;
          sb = sb @ previousHash
      in sb)"

definition GenerateReceiptHash :: "(string \<Rightarrow> string) \<Rightarrow> Receipt \<Rightarrow> string \<Rightarrow> string" where
  "GenerateReceiptHash sha256_Sum256 receipt previousHash =
     sha256_Sum256 (GenerateReceiptHash_data receipt previousHash)"

text \<open>The \<open>less\<close> closure for the fiscal-day counters (the same in both day hashes).\<close>

definition counter_less :: "FiscalDayCounter \<Rightarrow> FiscalDayCounter \<Rightarrow> bool" where
  "counter_less a b =
     (if FiscalCounterType a \<noteq> FiscalCounterType b then FiscalCounterType a < FiscalCounterType b
      else if FiscalCounterCurrency a \<noteq> FiscalCounterCurrency b
        then FiscalCounterCurrency a < FiscalCounterCurrency b
      else (case (FiscalCounterTaxID a, FiscalCounterTaxID b) of
              (Some x, Some y) \<Rightarrow> x < y
            | _ \<Rightarrow> (case (FiscalCounterMoneyType a, FiscalCounterMoneyType b) of
                      (Some x, Some y) \<Rightarrow> x < y
                    | _ \<Rightarrow> False)))"

definition write_counter :: "string \<Rightarrow> FiscalDayCounter \<Rightarrow> string" where
  "write_counter sb counter =
     (let sb = sb @ ToUpper (Itoa (FiscalCounterType counter));
          sb = sb @ ToUpper (FiscalCounterCurrency counter);
          sb = (case FiscalCounterTaxPercent counter of
                  Some p \<Rightarrow> sb @ Sprintf_2f p
                | None \<Rightarrow> (case FiscalCounterMoneyType counter of
                              Some m \<Rightarrow> sb @ ToUpper (Itoa m)
                            | None \<Rightarrow> sb));
          sb = sb @ cents (FiscalCounterValue counter)
      in sb)"

definition GenerateFiscalDayHash_data ::
  "int \<Rightarrow> int \<Rightarrow> string \<Rightarrow> FiscalDayCounter list \<Rightarrow> string" where
  "GenerateFiscalDayHash_data deviceID fiscalDayNo fiscalDayDate counters =
     (let sb = [];
          sb = sb @ Itoa deviceID;
          sb = sb @ Itoa fiscalDayNo;
          sb = sb @ fiscalDayDate;
          sortedCounters = sort_Slice counter_less counters;
          sb = foldl write_counter sb sortedCounters
      in sb)"

definition GenerateFiscalDayHash ::
  "(string \<Rightarrow> string) \<Rightarrow> int \<Rightarrow> int \<Rightarrow> string \<Rightarrow> FiscalDayCounter list \<Rightarrow> string" where
  "GenerateFiscalDayHash sha256_Sum256 deviceID fiscalDayNo fiscalDayDate counters =
     sha256_Sum256 (GenerateFiscalDayHash_data deviceID fiscalDayNo fiscalDayDate counters)"

definition GenerateFiscalDayServerHash_data ::
  "int \<Rightarrow> int \<Rightarrow> string \<Rightarrow> string \<Rightarrow> FiscalDayReconciliationMode \<Rightarrow> FiscalDayCounter list
   \<Rightarrow> string \<Rightarrow> string" where
  "GenerateFiscalDayServerHash_data deviceID fiscalDayNo fiscalDayDate fiscalDayUpdated
     reconciliationMode counters deviceSignature =
     (let sb = [];
          sb = sb @ Itoa deviceID;
          sb = sb @ Itoa fiscalDayNo;
          sb = sb @ fiscalDayDate;
          sb = sb @ fiscalDayUpdated;
          sb = sb @ ToUpper (FiscalDayReconciliationMode_String reconciliationMode);
          sortedCounters = sort_Slice counter_less counters;
          sb = foldl write_counter sb sortedCounters;
          sb = (if reconciliationMode = FiscalDayReconciliationModeAuto
                then sb @ deviceSignature else sb)
      in sb)"






fun FiscalCounterType_of_int :: "int \<Rightarrow> FiscalCounterType option" where
  "FiscalCounterType_of_int i =
     find (\<lambda>t. FiscalCounterType_int t = i)
       [FiscalCounterTypeSaleByTax, FiscalCounterTypeSaleTaxByTax,
        FiscalCounterTypeCreditNoteByTax, FiscalCounterTypeCreditNoteTaxByTax,
        FiscalCounterTypeDebitNoteByTax, FiscalCounterTypeDebitNoteTaxByTax,
        FiscalCounterTypeBalanceByMoneyType]"

fun MoneyType_of_int :: "int \<Rightarrow> MoneyType option" where
  "MoneyType_of_int i =
     find (\<lambda>t. MoneyType_int t = i)
       [MoneyTypeCash, MoneyTypeCard, MoneyTypeMobileWallet, MoneyTypeCoupon, MoneyTypeCredit,
        MoneyTypeBankTransfer, MoneyTypeOther]"

definition spec_counter_tuple :: "FiscalDayCounter \<Rightarrow> string" where
  "spec_counter_tuple c =
     (case FiscalCounterType_of_int (FiscalCounterType c) of
        None \<Rightarrow> [] | Some t \<Rightarrow> ToUpper (FiscalCounterType_String t)) @
     ToUpper (FiscalCounterCurrency c) @
     (case FiscalCounterTaxPercent c of
        Some p \<Rightarrow> Sprintf_2f p
      | None \<Rightarrow> (case FiscalCounterMoneyType c of
                    None \<Rightarrow> []
                  | Some m \<Rightarrow> (case MoneyType_of_int m of
                                None \<Rightarrow> [] | Some mt \<Rightarrow> ToUpper (MoneyType_String mt)))) @
     cents (FiscalCounterValue c)"


subsection \<open>Validation engine (\<open>internal/service/validation_service.go\<close>)\<close>

record ValidationResult =
  IsValid :: bool
  Color :: "ValidationColor option"
  Errors :: "string list"

definition addError ::
  "string \<Rightarrow> string \<Rightarrow> ValidationColor \<Rightarrow> ValidationResult \<Rightarrow> ValidationResult" where
  "addError code message color r =
     r\<lparr>IsValid := False,
       Errors := Errors r @ [code @ '': '' @ message],
       Color :=
         (case Color r of
            None \<Rightarrow> Some color
          | Some cur \<Rightarrow>
              if color = ValidationColorRed then Some color
              else if color = ValidationColorYellow \<and> cur = ValidationColorGrey then Some color
              else Some cur)\<rparr>"

definition isValidCurrency :: "string \<Rightarrow> bool" where
  "isValidCurrency currency =
     list_ex (\<lambda>valid. ToUpper currency = valid) [''USD'', ''ZWL'', ''EUR'', ''GBP'', ''ZAR'']"

definition rule_RCPT010 :: "Receipt \<Rightarrow> ValidationResult \<Rightarrow> ValidationResult" where
  "rule_RCPT010 receipt result =
     (if isValidCurrency (ReceiptCurrency receipt) then result
      else addError ''RCPT010'' ''Wrong currency code is used'' ValidationColorRed result)"

definition rule_RCPT011 :: "Receipt \<Rightarrow> Receipt option \<Rightarrow> ValidationResult \<Rightarrow> ValidationResult" where
  "rule_RCPT011 receipt previousReceipt result =
     (case previousReceipt of
        None \<Rightarrow>
          if ReceiptCounter receipt \<noteq> 1
          then addError ''RCPT011'' ''Receipt counter is not sequential'' ValidationColorGrey result
          else result
      | Some previous \<Rightarrow>
          if ReceiptCounter receipt \<noteq> wrap64 (ReceiptCounter previous + 1)
          then addError ''RCPT011'' ''Receipt counter is not sequential'' ValidationColorRed result
          else result)"

definition rule_RCPT012 :: "Receipt \<Rightarrow> Receipt option \<Rightarrow> ValidationResult \<Rightarrow> ValidationResult" where
  "rule_RCPT012 receipt previousReceipt result =
     (case previousReceipt of
        None \<Rightarrow>
          if ReceiptGlobalNo receipt \<noteq> 1 \<and> ReceiptCounter receipt \<noteq> 1
          then addError ''RCPT012'' ''Receipt global number is not sequential'' ValidationColorGrey
                 result
          else result
      | Some previous \<Rightarrow>
          if ReceiptGlobalNo receipt \<noteq> wrap64 (ReceiptGlobalNo previous + 1)
             \<and> ReceiptGlobalNo receipt \<noteq> 1
          then addError ''RCPT012'' ''Receipt global number is not sequential'' ValidationColorRed
                 result
          else result)"

text \<open>
  \<open>ValidateReceipt\<close>. The rules that follow RCPT012 (RCPT014 to RCPT048) read the receipt,
  the taxpayer, the tax table and the clock, never the result, and each reports through
  \<open>addError\<close>; the errors they raise, in program order, are the parameter \<open>later\<close>.
\<close>

definition ValidateReceipt ::
  "Receipt \<Rightarrow> Receipt option \<Rightarrow> (string \<times> string \<times> ValidationColor) list \<Rightarrow> ValidationResult" where
  "ValidateReceipt receipt previousReceipt later =
     (let result = \<lparr>IsValid = True, Color = None, Errors = []\<rparr>;
          result = rule_RCPT010 receipt result;
          result = rule_RCPT011 receipt previousReceipt result;
          result = rule_RCPT012 receipt previousReceipt result
      in foldl (\<lambda>res (code, message, color). addError code message color res) result later)"

subsection \<open>Persistent store (\<open>migrations/000001_initial_schema.up.sql\<close>)\<close>

record Device =
  Device_DeviceID :: int
  TaxpayerID :: int
  OperatingMode :: DeviceOperatingMode

record FiscalDay =
  FiscalDay_ID :: int
  FiscalDay_DeviceID :: int
  FiscalDayNo :: int
  FiscalDayOpened :: Time
  FiscalDayClosed :: "Time option"
  Status :: FiscalDayStatus
  ReconciliationMode :: "FiscalDayReconciliationMode option"
  FiscalDayDeviceSignature :: "SignatureData option"
  FiscalDayServerSignature :: "SignatureDataEx option"
  ClosingErrorCode :: "int option"
  LastReceiptGlobalNo :: "int option"

text \<open>
  The tables, in insertion order, and the three sequences behind the \<open>BIGSERIAL\<close> columns.
  A receipt row carries its tax and payment rows (the \<open>receipt_taxes\<close> and
  \<open>receipt_payments\<close> tables, which the code only reads joined on the receipt).
\<close>

record Store =
  devices :: "Device list"
  fiscal_days :: "FiscalDay list"
  receipts :: "Receipt list"
  fiscal_counters :: "(int \<times> FiscalDayCounter) list"
  fiscal_days_id_seq :: int
  receipts_id_seq :: int
  receipts_receipt_id_seq :: int

text \<open>What the surroundings supply to one service call.\<close>

record Env =
  sha256_Sum256 :: "string \<Rightarrow> string"
  EncodeBase64 :: "string \<Rightarrow> string"
  SignData :: "string \<Rightarrow> string option"
  time_Now :: Time
  uuid_New :: string
  later_rule_errors :: "(string \<times> string \<times> ValidationColor) list"

datatype Error =
  APIError nat string string
  | TechnicalError string
  | Panic string

text \<open>Column types: \<open>INTEGER\<close>, \<open>VARCHAR(3)\<close>, \<open>DECIMAL(p, 2)\<close> (rounded half away from zero).\<close>

definition int4 :: "int \<Rightarrow> bool" where
  "int4 n = (- (2 ^ 31) \<le> n \<and> n < 2 ^ 31)"

definition round_half_away :: "real \<Rightarrow> int" where
  "round_half_away x = (if x < 0 then - \<lfloor>- x + 1 / 2\<rfloor> else \<lfloor>x + 1 / 2\<rfloor>)"

definition numeric_2 :: "real \<Rightarrow> real" where
  "numeric_2 x = of_int (round_half_away (x * 100)) / 100"

definition fits_numeric :: "nat \<Rightarrow> real \<Rightarrow> bool" where
  "fits_numeric p x = (\<bar>numeric_2 x\<bar> < 10 ^ (p - 2))"

text \<open>\<open>ORDER BY key DESC LIMIT 1\<close>.\<close>

fun max_by :: "('a \<Rightarrow> int) \<Rightarrow> 'a \<Rightarrow> 'a list \<Rightarrow> 'a" where
  "max_by key best [] = best"
| "max_by key best (x # xs) = max_by key (if key best < key x then x else best) xs"

definition order_desc_limit_1 :: "('a \<Rightarrow> int) \<Rightarrow> 'a list \<Rightarrow> 'a option" where
  "order_desc_limit_1 key rows = (case rows of [] \<Rightarrow> None | x # xs \<Rightarrow> Some (max_by key x xs))"


subsection \<open>Device and fiscal-day repositories (\<open>internal/repository/device_repository.go\<close>)\<close>

definition GetByDeviceID :: "Store \<Rightarrow> int \<Rightarrow> Device option" where
  "GetByDeviceID s deviceID = find (\<lambda>d. Device_DeviceID d = deviceID) (devices s)"

definition GetCurrent :: "Store \<Rightarrow> int \<Rightarrow> FiscalDay option" where
  "GetCurrent s deviceID =
     order_desc_limit_1 FiscalDayNo (filter (\<lambda>d. FiscalDay_DeviceID d = deviceID) (fiscal_days s))"

text \<open>
  \<open>fiscalDayRepository.Create\<close>: the \<open>INSERT\<close> writes four columns and fails on a value
  outside \<open>INTEGER\<close>, on an unknown device (foreign key) and on a repeated
  \<open>(device_id, fiscal_day_no)\<close>.
\<close>

definition fiscalDayRepository_Create :: "Store \<Rightarrow> FiscalDay \<Rightarrow> (FiscalDay \<times> Store) option" where
  "fiscalDayRepository_Create s fiscalDay =
     (if int4 (FiscalDay_DeviceID fiscalDay) \<and> int4 (FiscalDayNo fiscalDay)
         \<and> list_ex (\<lambda>d. Device_DeviceID d = FiscalDay_DeviceID fiscalDay) (devices s)
         \<and> list_all (\<lambda>d. (FiscalDay_DeviceID d, FiscalDayNo d)
                              \<noteq> (FiscalDay_DeviceID fiscalDay, FiscalDayNo fiscalDay))
              (fiscal_days s)
      then
        let row = \<lparr>FiscalDay_ID = fiscal_days_id_seq s,
                   FiscalDay_DeviceID = FiscalDay_DeviceID fiscalDay,
                   FiscalDayNo = FiscalDayNo fiscalDay,
                   FiscalDayOpened = FiscalDayOpened fiscalDay,
                   FiscalDayClosed = None,
                   Status = Status fiscalDay,
                   ReconciliationMode = None,
                   FiscalDayDeviceSignature = None,
                   FiscalDayServerSignature = None,
                   ClosingErrorCode = None,
                   LastReceiptGlobalNo = None\<rparr>
        in Some (row, s\<lparr>fiscal_days := fiscal_days s @ [row],
                       fiscal_days_id_seq := fiscal_days_id_seq s + 1\<rparr>)
      else None)"

text \<open>\<open>fiscalDayRepository.Update\<close>: seven columns of the row with the given id.\<close>

definition fiscalDayRepository_Update :: "Store \<Rightarrow> FiscalDay \<Rightarrow> Store" where
  "fiscalDayRepository_Update s fiscalDay =
     s\<lparr>fiscal_days :=
         map (\<lambda>d. if FiscalDay_ID d = FiscalDay_ID fiscalDay
                   then d\<lparr>FiscalDayClosed := FiscalDayClosed fiscalDay,
                          Status := Status fiscalDay,
                          ReconciliationMode := ReconciliationMode fiscalDay,
                          FiscalDayDeviceSignature := FiscalDayDeviceSignature fiscalDay,
                          FiscalDayServerSignature := FiscalDayServerSignature fiscalDay,
                          ClosingErrorCode := ClosingErrorCode fiscalDay,
                          LastReceiptGlobalNo := LastReceiptGlobalNo fiscalDay\<rparr>
                   else d)
           (fiscal_days s)\<rparr>"

definition CreateCounters :: "Store \<Rightarrow> int \<Rightarrow> FiscalDayCounter list \<Rightarrow> Store" where
  "CreateCounters s fiscalDayID counters =
     s\<lparr>fiscal_counters :=
         filter (\<lambda>(d, c). d \<noteq> fiscalDayID) (fiscal_counters s) @
         map (Pair fiscalDayID) (filter (\<lambda>c. FiscalCounterValue c \<noteq> 0) counters)\<rparr>"














subsection \<open>Receipt repository (\<open>internal/repository/receipt_repository.go\<close>)\<close>

definition GetByGlobalNo :: "Store \<Rightarrow> int \<Rightarrow> int \<Rightarrow> Receipt option" where
  "GetByGlobalNo s deviceID globalNo =
     find (\<lambda>r. Receipt_DeviceID r = deviceID \<and> ReceiptGlobalNo r = globalNo) (receipts s)"

definition GetPreviousReceipt :: "Store \<Rightarrow> int \<Rightarrow> int \<Rightarrow> int \<Rightarrow> Receipt option" where
  "GetPreviousReceipt s deviceID fiscalDayID globalNo =
     order_desc_limit_1 ReceiptGlobalNo
       (filter (\<lambda>r. Receipt_DeviceID r = deviceID \<and> FiscalDayID r = fiscalDayID
                     \<and> ReceiptGlobalNo r < globalNo)
          (receipts s))"

definition GetReceiptsWithValidationErrors :: "Store \<Rightarrow> int \<Rightarrow> Receipt list" where
  "GetReceiptsWithValidationErrors s fiscalDayID =
     sort_key ReceiptGlobalNo
       (filter (\<lambda>r. FiscalDayID r = fiscalDayID
                     \<and> (ValidationColor r = Some ValidationColorRed
                        \<or> ValidationColor r = Some ValidationColorGrey))
          (receipts s))"

definition receipt_fits_columns :: "Receipt \<Rightarrow> bool" where
  "receipt_fits_columns r =
     (int4 (Receipt_DeviceID r) \<and> int4 (ReceiptCounter r) \<and> int4 (ReceiptGlobalNo r)
      \<and> length (ReceiptCurrency r) \<le> 3 \<and> fits_numeric 21 (ReceiptTotal r)
      \<and> list_all (\<lambda>t. int4 (TaxID t) \<and> length (tax_code_or_empty t) \<le> 3
                       \<and> fits_numeric 5 (case TaxPercent t of None \<Rightarrow> 0 | Some p \<Rightarrow> p)
                       \<and> fits_numeric 21 (TaxAmount t) \<and> fits_numeric 21 (SalesAmountWithTax t))
           (ReceiptTaxes r)
      \<and> list_all (\<lambda>p. int4 (MoneyTypeCode p) \<and> fits_numeric 21 (PaymentAmount p))
           (ReceiptPayments r))"

text \<open>
  \<open>CreateWithLines\<close>, one transaction. The \<open>INSERT INTO receipts\<close> lists eighteen columns;
  \<open>receipt_server_signature\<close>, \<open>server_date\<close>, \<open>validation_color\<close> and
  \<open>validation_errors\<close> are not among them, so the row holds \<open>NULL\<close> there. The insert
  fails on a value that does not fit its column, on an unknown device or fiscal day
  (foreign keys) and on a repeated \<open>(device_id, receipt_global_no)\<close>. On success the
  caller's receipt gets the two generated ids.
\<close>

definition CreateWithLines :: "Store \<Rightarrow> Receipt \<Rightarrow> (Receipt \<times> Store) option" where
  "CreateWithLines s receipt =
     (if receipt_fits_columns receipt
         \<and> list_ex (\<lambda>d. Device_DeviceID d = Receipt_DeviceID receipt) (devices s)
         \<and> list_ex (\<lambda>d. FiscalDay_ID d = FiscalDayID receipt) (fiscal_days s)
         \<and> list_all (\<lambda>r. (Receipt_DeviceID r, ReceiptGlobalNo r)
                              \<noteq> (Receipt_DeviceID receipt, ReceiptGlobalNo receipt))
              (receipts s)
      then
        let receipt = receipt\<lparr>Receipt_ID := receipts_id_seq s,
                              ReceiptID := receipts_receipt_id_seq s\<rparr>;
            row = receipt\<lparr>
                    ReceiptTotal := numeric_2 (ReceiptTotal receipt),
                    ReceiptTaxes :=
                      map (\<lambda>t. t\<lparr>TaxPercent := map_option numeric_2 (TaxPercent t),
                                  TaxAmount := numeric_2 (TaxAmount t),
                                  SalesAmountWithTax := numeric_2 (SalesAmountWithTax t)\<rparr>)
                        (ReceiptTaxes receipt),
                    ReceiptPayments :=
                      map (\<lambda>p. p\<lparr>PaymentAmount := numeric_2 (PaymentAmount p)\<rparr>)
                        (ReceiptPayments receipt),
                    ReceiptServerSignature := None,
                    ValidationColor := None,
                    ValidationErrors := [],
                    ServerDate := None\<rparr>
        in Some (receipt, s\<lparr>receipts := receipts s @ [row],
                           receipts_id_seq := receipts_id_seq s + 1,
                           receipts_receipt_id_seq := receipts_receipt_id_seq s + 1\<rparr>)
      else None)"

subsection \<open>Fiscal-day service (\<open>internal/service/fiscal_day_service.go\<close>)\<close>

record OpenFiscalDayResponse =
  Open_OperationID :: string
  Open_FiscalDayNo :: int

record CloseFiscalDayRequest =
  CloseReq_DeviceID :: int
  CloseReq_FiscalDayDeviceSignature :: "SignatureData option"
  CloseReq_FiscalDayCounters :: "FiscalDayCounter list"


record GetFiscalDayStatusResponse =
  Status_OperationID :: string
  Status_FiscalDayStatus :: string
  Status_FiscalDayNo :: "int option"
  Status_FiscalDayReconciliationMode :: "string option"
  Status_FiscalDayServerSignature :: "SignatureDataEx option"
  Status_FiscalDayClosed :: "Time option"
  Status_LastReceiptGlobalNo :: "int option"

definition OpenFiscalDay :: "Env \<Rightarrow> Store \<Rightarrow> int \<Rightarrow> (Error + OpenFiscalDayResponse) \<times> Store" where
  "OpenFiscalDay env s deviceID =
     (case GetByDeviceID s deviceID of
        None \<Rightarrow> (Inl (APIError 422 ''Device not found'' ''DEV01''), s)
      | Some device \<Rightarrow>
        if OperatingMode device = DeviceOperatingModeOffline
        then (Inl (APIError 422 ''Device operating mode is Offline'' ''DEV01''), s)
        else
          let currentDay = GetCurrent s deviceID in
          if (case currentDay of None \<Rightarrow> False | Some d \<Rightarrow> Status d = FiscalDayStatusOpened)
          then (Inl (APIError 422 ''Fiscal day is already opened'' ''FISC01''), s)
          else if (case currentDay of None \<Rightarrow> False | Some d \<Rightarrow> Status d \<noteq> FiscalDayStatusClosed)
          then (Inl (APIError 422 ''Previous fiscal day is not closed'' ''FISC02''), s)
          else
            let nextDayNo = (case currentDay of None \<Rightarrow> 1 | Some d \<Rightarrow> wrap64 (FiscalDayNo d + 1));
                fiscalDay = \<lparr>FiscalDay_ID = 0, FiscalDay_DeviceID = deviceID,
                             FiscalDayNo = nextDayNo, FiscalDayOpened = time_Now env,
                             FiscalDayClosed = None, Status = FiscalDayStatusOpened,
                             ReconciliationMode = None, FiscalDayDeviceSignature = None,
                             FiscalDayServerSignature = None, ClosingErrorCode = None,
                             LastReceiptGlobalNo = None\<rparr>
            in case fiscalDayRepository_Create s fiscalDay of
                 None \<Rightarrow> (Inl (TechnicalError ''failed to create fiscal day''), s)
               | Some (created, s') \<Rightarrow>
                   (Inr \<lparr>Open_OperationID = uuid_New env, Open_FiscalDayNo = nextDayNo\<rparr>, s'))"


definition hasBlockingErrors :: "Receipt list \<Rightarrow> bool" where
  "hasBlockingErrors receiptsWithErrors =
     list_ex (\<lambda>receipt. ValidationColor receipt = Some ValidationColorRed
                         \<or> ValidationColor receipt = Some ValidationColorGrey)
       receiptsWithErrors"


text \<open>
  \<open>GetFiscalDayStatus\<close>. Line 278, \<open>fiscalDay.ReconciliationMode.String()\<close>, calls a
  value-receiver method through a pointer: Go dereferences the pointer first, and a nil
  pointer panics.
\<close>

definition GetFiscalDayStatus :: "Env \<Rightarrow> Store \<Rightarrow> int \<Rightarrow> Error + GetFiscalDayStatusResponse" where
  "GetFiscalDayStatus env s deviceID =
     (case GetCurrent s deviceID of
        None \<Rightarrow>
          Inr \<lparr>Status_OperationID = uuid_New env,
               Status_FiscalDayStatus = FiscalDayStatus_String FiscalDayStatusClosed,
               Status_FiscalDayNo = None, Status_FiscalDayReconciliationMode = None,
               Status_FiscalDayServerSignature = None, Status_FiscalDayClosed = None,
               Status_LastReceiptGlobalNo = None\<rparr>
      | Some fiscalDay \<Rightarrow>
          (case ReconciliationMode fiscalDay of
             None \<Rightarrow> Inl (Panic ''invalid memory address or nil pointer dereference'')
           | Some m \<Rightarrow>
               let mode = FiscalDayReconciliationMode_String m in
               Inr \<lparr>Status_OperationID = uuid_New env,
                    Status_FiscalDayStatus = FiscalDayStatus_String (Status fiscalDay),
                    Status_FiscalDayNo = Some (FiscalDayNo fiscalDay),
                    Status_FiscalDayReconciliationMode = Some mode,
                    Status_FiscalDayServerSignature = FiscalDayServerSignature fiscalDay,
                    Status_FiscalDayClosed = FiscalDayClosed fiscalDay,
                    Status_LastReceiptGlobalNo = LastReceiptGlobalNo fiscalDay\<rparr>))"

subsection \<open>Receipt service (\<open>internal/service/receipt_service.go\<close>)\<close>

record SubmitReceiptRequest =
  Req_DeviceID :: int
  Req_Receipt :: Receipt

record SubmitReceiptResponse =
  Submit_OperationID :: string
  Submit_ReceiptID :: int
  Submit_ServerDate :: Time
  Submit_ReceiptServerSignature :: SignatureDataEx

definition generateServerSignature :: "Env \<Rightarrow> Receipt \<Rightarrow> Time \<Rightarrow> SignatureDataEx option" where
  "generateServerSignature env receipt serverDate =
     (let signatureData =
            EncodeBase64 env (Signature (ReceiptDeviceSignature receipt)) @
            Itoa (ReceiptID receipt) @ Format_datetime serverDate
      in case SignData env signatureData of
           None \<Rightarrow> None
         | Some signature \<Rightarrow>
             Some \<lparr>Hash = ReceiptHash receipt, Signature = signature,
                   CertificateThumbprint = replicate 20 (CHR 0x00)\<rparr>)"

text \<open>
  The chain lookup of \<open>SubmitReceipt\<close> (lines 95 to 106): the previous receipt is fetched
  only for a receipt counter above 1.
\<close>

definition lookup_previous :: "Store \<Rightarrow> int \<Rightarrow> int \<Rightarrow> Receipt \<Rightarrow> Receipt option" where
  "lookup_previous s deviceID fiscalDayID receipt =
     (if ReceiptCounter receipt > 1
      then GetPreviousReceipt s deviceID fiscalDayID (ReceiptGlobalNo receipt)
      else None)"

text \<open>
  \<open>SubmitReceipt\<close>. The taxpayer and tax-table reads and the credit/debit-note validation
  feed only the in-memory validation result, which \<open>CreateWithLines\<close> does not write and
  the response does not carry; the result is computed here from \<open>ValidateReceipt\<close> alone.
  The duplicate branch dereferences the stored \<open>ServerDate\<close> and
  \<open>ReceiptServerSignature\<close> pointers.
\<close>

definition SubmitReceipt ::
  "Env \<Rightarrow> Store \<Rightarrow> SubmitReceiptRequest \<Rightarrow> (Error + SubmitReceiptResponse) \<times> Store" where
  "SubmitReceipt env s req =
     (case GetByDeviceID s (Req_DeviceID req) of
        None \<Rightarrow> (Inl (APIError 422 ''Device not found'' ''DEV01''), s)
      | Some device \<Rightarrow>
        if OperatingMode device = DeviceOperatingModeOffline
        then (Inl (APIError 422 ''Device operating mode is Offline'' ''DEV01''), s)
        else
          (case GetCurrent s (Req_DeviceID req) of
             None \<Rightarrow> (Inl (APIError 422 ''No fiscal day opened'' ''RCPT01''), s)
           | Some fiscalDay \<Rightarrow>
             if Status fiscalDay \<noteq> FiscalDayStatusOpened
                \<and> Status fiscalDay \<noteq> FiscalDayStatusCloseFailed
             then (Inl (APIError 422 ''Submitting receipt is not allowed'' ''RCPT01''), s)
             else
               let receipt = (Req_Receipt req)\<lparr>FiscalDayID := FiscalDay_ID fiscalDay\<rparr> in
               (case GetByGlobalNo s (Req_DeviceID req) (ReceiptGlobalNo receipt) of
                  Some existing \<Rightarrow>
                    (case ServerDate existing of
                       None \<Rightarrow> (Inl (Panic ''invalid memory address or nil pointer dereference''), s)
                     | Some serverDate \<Rightarrow>
                         (case ReceiptServerSignature existing of
                            None \<Rightarrow>
                              (Inl (Panic ''invalid memory address or nil pointer dereference''), s)
                          | Some serverSignature \<Rightarrow>
                              (Inr \<lparr>Submit_OperationID = uuid_New env,
                                    Submit_ReceiptID = ReceiptID existing,
                                    Submit_ServerDate = serverDate,
                                    Submit_ReceiptServerSignature = serverSignature\<rparr>, s)))
                | None \<Rightarrow>
                    let previousReceipt =
                          lookup_previous s (Req_DeviceID req) (FiscalDay_ID fiscalDay) receipt;
                        validationResult =
                          ValidateReceipt receipt previousReceipt (later_rule_errors env);
                        previousHash =
                          (case previousReceipt of None \<Rightarrow> [] | Some p \<Rightarrow> ReceiptHash p);
                        receiptHash =
                          GenerateReceiptHash (sha256_Sum256 env) receipt previousHash;
                        receipt = receipt\<lparr>ReceiptHash := receiptHash,
                                          ValidationColor := Color validationResult,
                                          ValidationErrors := Errors validationResult\<rparr>;
                        serverDate = time_Now env;
                        receipt = receipt\<lparr>ServerDate := Some serverDate\<rparr>
                    in
                    (case generateServerSignature env receipt serverDate of
                       None \<Rightarrow> (Inl (TechnicalError ''failed to generate server signature''), s)
                     | Some serverSignature \<Rightarrow>
                         let receipt = receipt\<lparr>ReceiptServerSignature := Some serverSignature\<rparr>
                         in
                         (case CreateWithLines s receipt of
                            None \<Rightarrow> (Inl (TechnicalError ''failed to save receipt''), s)
                          | Some (receipt, s) \<Rightarrow>
                              let fiscalDay =
                                    fiscalDay\<lparr>LastReceiptGlobalNo :=
                                                Some (ReceiptGlobalNo receipt)\<rparr>;
                                  s = fiscalDayRepository_Update s fiscalDay
                              in (Inr \<lparr>Submit_OperationID = uuid_New env,
                                        Submit_ReceiptID = ReceiptID receipt,
                                        Submit_ServerDate = serverDate,
                                        Submit_ReceiptServerSignature = serverSignature\<rparr>,
                                  s))))))"

subsection \<open>Reachable stores\<close>


subsection \<open>Auxiliary notions for the proofs\<close>

text \<open>What \<open>fiscalDayRepository.Update\<close> does to one row of \<open>fiscal_days\<close>.\<close>

definition update_row :: "FiscalDay \<Rightarrow> FiscalDay \<Rightarrow> FiscalDay" where
  "update_row fiscalDay d =
     (if FiscalDay_ID d = FiscalDay_ID fiscalDay
      then d\<lparr>FiscalDayClosed := FiscalDayClosed fiscalDay,
             Status := Status fiscalDay,
             ReconciliationMode := ReconciliationMode fiscalDay,
             FiscalDayDeviceSignature := FiscalDayDeviceSignature fiscalDay,
             FiscalDayServerSignature := FiscalDayServerSignature fiscalDay,
             ClosingErrorCode := ClosingErrorCode fiscalDay,
             LastReceiptGlobalNo := LastReceiptGlobalNo fiscalDay\<rparr>
      else d)"



subsection \<open>Concrete inputs used in the closed examples\<close>


definition cash_counter :: FiscalDayCounter where
  "cash_counter =
     \<lparr>FiscalCounterType = 6, FiscalCounterCurrency = ''USD'', FiscalCounterTaxID = None,
      FiscalCounterTaxPercent = None, FiscalCounterMoneyType = Some 0, FiscalCounterValue = 1\<rparr>"

text \<open>
  The environment of the closed examples takes the identity for the digest and for
  base64, so that a stored hash shows the bytes that were hashed; its signer always
  succeeds. \<open>env_b\<close> differs from \<open>env_a\<close> in the generated operation id only.
\<close>

definition time_0 :: Time where
  "time_0 = \<lparr>t_year = 2024, t_month = 1, t_day = 1, t_hour = 9, t_minute = 0, t_second = 0\<rparr>"

definition env_a :: Env where
  "env_a = \<lparr>sha256_Sum256 = (\<lambda>m. m), EncodeBase64 = (\<lambda>m. m), SignData = (\<lambda>m. Some ''signature''),
            time_Now = time_0, uuid_New = ''operation-a'', later_rule_errors = []\<rparr>"

definition env_b :: Env where
  "env_b = env_a\<lparr>uuid_New := ''operation-b''\<rparr>"

definition store_0 :: Store where
  "store_0 = \<lparr>devices = [\<lparr>Device_DeviceID = 1001, TaxpayerID = 1, OperatingMode = DeviceOperatingModeOnline\<rparr>],
     fiscal_days = [], receipts = [], fiscal_counters = [], fiscal_days_id_seq = 1,
     receipts_id_seq = 1, receipts_receipt_id_seq = 1\<rparr>"

definition day_1 :: FiscalDay where
  "day_1 = \<lparr>FiscalDay_ID = 1, FiscalDay_DeviceID = 1001, FiscalDayNo = 1, FiscalDayOpened = time_0,
     FiscalDayClosed = None, Status = FiscalDayStatusOpened, ReconciliationMode = None,
     FiscalDayDeviceSignature = None, FiscalDayServerSignature = None, ClosingErrorCode = None,
     LastReceiptGlobalNo = None\<rparr>"

definition store_open :: Store where
  "store_open = store_0\<lparr>fiscal_days := [day_1], fiscal_days_id_seq := 2\<rparr>"


definition time_1 :: Time where
  "time_1 = \<lparr>t_year = 2024, t_month = 1, t_day = 1, t_hour = 10, t_minute = 0, t_second = 0\<rparr>"

definition rcpt_a :: Receipt where
  "rcpt_a =
     \<lparr>Receipt_ID = 0, ReceiptID = 0, Receipt_DeviceID = 1001, FiscalDayID = 0,
      ReceiptType = ReceiptTypeFiscalInvoice, ReceiptCurrency = ''USD'', ReceiptCounter = 1,
      ReceiptGlobalNo = 1, ReceiptDate = time_1,
      ReceiptTaxes = [\<lparr>TaxCode = Some ''A'', TaxPercent = Some 15, TaxID = 1,
                       TaxAmount = 1304 / 100, SalesAmountWithTax = 100\<rparr>],
      ReceiptPayments = [\<lparr>MoneyTypeCode = 0, PaymentAmount = 100\<rparr>], ReceiptTotal = 100,
      ReceiptDeviceSignature = \<lparr>Hash = [], Signature = ''device-signature''\<rparr>,
      ReceiptServerSignature = None, ReceiptHash = [], ValidationColor = None,
      ValidationErrors = [], ServerDate = None\<rparr>"

definition row_a :: Receipt where
  "row_a = rcpt_a\<lparr>Receipt_ID := 1, ReceiptID := 1, FiscalDayID := 1,
                   ReceiptHash := ''1001FISCALINVOICEUSD12024-01-01T10:00:0010000A15.00130410000''\<rparr>"

definition store_one :: Store where
  "store_one = store_open\<lparr>fiscal_days := [day_1\<lparr>LastReceiptGlobalNo := Some 1\<rparr>],
                          receipts := [row_a], receipts_id_seq := 2, receipts_receipt_id_seq := 2\<rparr>"

definition signature_a :: SignatureDataEx where
  "signature_a = \<lparr>Hash = ReceiptHash row_a, Signature = ''signature'',
                  CertificateThumbprint = replicate 20 (CHR 0x00)\<rparr>"

definition dev_1001 :: Device where
  "dev_1001 = \<lparr>Device_DeviceID = 1001, TaxpayerID = 1, OperatingMode = DeviceOperatingModeOnline\<rparr>"

definition close_req_empty :: CloseFiscalDayRequest where
  "close_req_empty =
     \<lparr>CloseReq_DeviceID = 1001, CloseReq_FiscalDayDeviceSignature = None,
      CloseReq_FiscalDayCounters = []\<rparr>"

text \<open>The store \<open>store_one\<close> with its receipt coloured Red.\<close>

definition store_red :: Store where
  "store_red = store_one\<lparr>receipts := [row_a\<lparr>ValidationColor := Some ValidationColorRed\<rparr>]\<rparr>"

text \<open>The store \<open>store_one\<close> with the server date and signature present on the row.\<close>

definition store_signed :: Store where
  "store_signed =
     store_one\<lparr>receipts := [row_a\<lparr>ServerDate := Some time_0,
                                      ReceiptServerSignature := Some signature_a\<rparr>]\<rparr>"

text \<open>A second payload for global number 1: the receipt \<open>rcpt_a\<close> with another total.\<close>

definition req_a :: SubmitReceiptRequest where
  "req_a = \<lparr>Req_DeviceID = 1001, Req_Receipt = rcpt_a\<rparr>"

definition req_a_changed :: SubmitReceiptRequest where
  "req_a_changed = \<lparr>Req_DeviceID = 1001, Req_Receipt = rcpt_a\<lparr>ReceiptTotal := 1235 / 1000\<rparr>\<rparr>"

text \<open>
  Two receipts for global number 2 after \<open>rcpt_a\<close>: the regular successor (counter 2) and
  one that repeats counter 1.
\<close>

definition req_b :: SubmitReceiptRequest where
  "req_b = \<lparr>Req_DeviceID = 1001,
             Req_Receipt = rcpt_a\<lparr>ReceiptCounter := 2, ReceiptGlobalNo := 2\<rparr>\<rparr>"

definition req_replay :: SubmitReceiptRequest where
  "req_replay = \<lparr>Req_DeviceID = 1001, Req_Receipt = rcpt_a\<lparr>ReceiptGlobalNo := 2\<rparr>\<rparr>"

text \<open>
  Counters for the day of \<open>store_one\<close>: the three that the server computes from
  \<open>row_a\<close>, preceded by a second SaleByTax entry for the same key with the value 5.
\<close>

definition sale_counter :: "real \<Rightarrow> FiscalDayCounter" where
  "sale_counter v =
     \<lparr>FiscalCounterType = 0, FiscalCounterCurrency = ''USD'', FiscalCounterTaxID = Some 1,
      FiscalCounterTaxPercent = Some 15, FiscalCounterMoneyType = None, FiscalCounterValue = v\<rparr>"

definition server_counters :: "FiscalDayCounter list" where
  "server_counters =
     [sale_counter 100,
      \<lparr>FiscalCounterType = 1, FiscalCounterCurrency = ''USD'', FiscalCounterTaxID = Some 1,
       FiscalCounterTaxPercent = Some 15, FiscalCounterMoneyType = None,
       FiscalCounterValue = 1304 / 100\<rparr>,
      \<lparr>FiscalCounterType = 6, FiscalCounterCurrency = ''USD'', FiscalCounterTaxID = None,
       FiscalCounterTaxPercent = None, FiscalCounterMoneyType = Some 0,
       FiscalCounterValue = 100\<rparr>]"

definition close_req_repeated :: CloseFiscalDayRequest where
  "close_req_repeated =
     \<lparr>CloseReq_DeviceID = 1001, CloseReq_FiscalDayDeviceSignature = None,
      CloseReq_FiscalDayCounters = sale_counter 5 # server_counters\<rparr>"

section \<open>Properties\<close>

subsection \<open>Canonical codec\<close>

lemmas prim_defs =
  Itoa_def dec_nat.simps digit_char_def ToUpper_def upper_char_def cents_def int64_of_float_def
  trunc_zero_def Sprintf_2f_def round_half_even_def Format_date_def Format_datetime_def
  two_digits_def four_digits_def sort_Slice_def





text \<open>
  Claim C5, evaluated at a cash-balance counter (type BalanceByMoneyType, money type Cash,
  currency USD, value 1.00) of device 1001, day 1. Both day encodings write the counter
  type and the money type as their enum positions, \<open>6\<close> and \<open>0\<close>; the encoding by names
  that the claim describes is \<open>BALANCEBYMONEYTYPEUSDCASH100\<close>.
\<close>

theorem C5_counter_written_by_enum_position:
  "GenerateFiscalDayHash_data 1001 1 ''2024-01-01'' [cash_counter] = ''100112024-01-016USD0100''
   \<and> GenerateFiscalDayServerHash_data 1001 1 ''2024-01-01'' ''2024-01-01T20:00:00''
        FiscalDayReconciliationModeManual [cash_counter] []
       = ''100112024-01-012024-01-01T20:00:00MANUAL6USD0100''
   \<and> spec_counter_tuple cash_counter = ''BALANCEBYMONEYTYPEUSDCASH100''"
  by (simp add: GenerateFiscalDayHash_data_def GenerateFiscalDayServerHash_data_def
        write_counter_def spec_counter_tuple_def cash_counter_def prim_defs)




subsection \<open>Services\<close>

lemmas repo_defs = GetByDeviceID_def GetCurrent_def order_desc_limit_1_def fiscalDayRepository_Create_def
  fiscalDayRepository_Update_def int4_def GetReceiptsWithValidationErrors_def hasBlockingErrors_def Let_def
lemmas ex_defs = env_a_def env_b_def store_0_def day_1_def store_open_def time_0_def time_1_def rcpt_a_def
  row_a_def store_one_def signature_a_def dev_1001_def close_req_empty_def store_red_def store_signed_def
  req_a_def req_a_changed_def req_b_def req_replay_def sale_counter_def server_counters_def
  close_req_repeated_def

lemma store_open_is_opened: "OpenFiscalDay env_a store_0 1001 = (Inr \<lparr>Open_OperationID = ''operation-a'', Open_FiscalDayNo = 1\<rparr>, store_open)"
  by (simp add: OpenFiscalDay_def repo_defs ex_defs)

text \<open>
  Claim C10, evaluated on the store right after \<open>OpenFiscalDay\<close> for device 1001: the
  current day is Opened and has no reconciliation mode, and \<open>GetFiscalDayStatus\<close> does not
  return a status but panics on the nil pointer.
\<close>

theorem C10_status_of_open_day_panics:
  "GetFiscalDayStatus env_a (snd (OpenFiscalDay env_a store_0 1001)) 1001
     = Inl (Panic ''invalid memory address or nil pointer dereference'')"
  by (simp add: store_open_is_opened) (simp add: GetFiscalDayStatus_def repo_defs ex_defs)

lemma addError_Errors: "Errors (addError c m col r) = Errors r @ [c @ '': '' @ m]"
  by (simp add: addError_def)

lemma addError_Red: "Color (addError c m ValidationColorRed r) = Some ValidationColorRed"
  by (simp add: addError_def split: option.splits)

lemma addError_keeps_Red: "Color r = Some ValidationColorRed \<Longrightarrow> Color (addError c m col r) = Some ValidationColorRed"
  by (simp add: addError_def)

lemma foldl_addError_Errors:
  "Errors (foldl (\<lambda>res (code, message, color). addError code message color res) r later)
     = Errors r @ map (\<lambda>(code, message, color). code @ '': '' @ message) later"
  by (induction later arbitrary: r) (auto simp: addError_Errors)

lemma foldl_addError_keeps_Red:
  "Color r = Some ValidationColorRed \<Longrightarrow>
   Color (foldl (\<lambda>res (code, message, color). addError code message color res) r later) = Some ValidationColorRed"
  by (induction later arbitrary: r) (auto simp: addError_keeps_Red)

lemmas rule_defs = ValidateReceipt_def rule_RCPT010_def rule_RCPT011_def rule_RCPT012_def

text \<open>
  Claim C8, amended. With a previous receipt, RCPT011 fires exactly when receiptCounter
  differs from the predecessor's counter + 1, and RCPT012 fires exactly when
  receiptGlobalNo differs from the predecessor's global number + 1 and is not 1; either
  makes the receipt Red. Without a previous receipt, RCPT011 fires exactly when
  receiptCounter is not 1 and RCPT012 exactly when neither receiptGlobalNo nor
  receiptCounter is 1, both with Grey severity (the receipt is Grey when its currency is
  valid and no later rule fires). The later rules only append their errors.
\<close>

theorem C8_counter_continuity:
  "(\<forall>p. prev = Some p \<longrightarrow>
      (''RCPT011: Receipt counter is not sequential'' \<in> set (Errors (ValidateReceipt r prev []))
         \<longleftrightarrow> ReceiptCounter r \<noteq> wrap64 (ReceiptCounter p + 1))
    \<and> (''RCPT012: Receipt global number is not sequential'' \<in> set (Errors (ValidateReceipt r prev []))
         \<longleftrightarrow> ReceiptGlobalNo r \<noteq> wrap64 (ReceiptGlobalNo p + 1) \<and> ReceiptGlobalNo r \<noteq> 1)
    \<and> (ReceiptCounter r \<noteq> wrap64 (ReceiptCounter p + 1)
        \<or> ReceiptGlobalNo r \<noteq> wrap64 (ReceiptGlobalNo p + 1) \<and> ReceiptGlobalNo r \<noteq> 1
        \<longrightarrow> Color (ValidateReceipt r prev later) = Some ValidationColorRed))
   \<and> (prev = None \<longrightarrow>
      (''RCPT011: Receipt counter is not sequential'' \<in> set (Errors (ValidateReceipt r prev []))
         \<longleftrightarrow> ReceiptCounter r \<noteq> 1)
    \<and> (''RCPT012: Receipt global number is not sequential'' \<in> set (Errors (ValidateReceipt r prev []))
         \<longleftrightarrow> ReceiptGlobalNo r \<noteq> 1 \<and> ReceiptCounter r \<noteq> 1)
    \<and> (ReceiptCounter r \<noteq> 1 \<and> isValidCurrency (ReceiptCurrency r)
        \<longrightarrow> Color (ValidateReceipt r prev []) = Some ValidationColorGrey))
   \<and> Errors (ValidateReceipt r prev later)
       = Errors (ValidateReceipt r prev []) @ map (\<lambda>(code, message, color). code @ '': '' @ message) later"
proof -
  have later: "Errors (ValidateReceipt r prev later)
       = Errors (ValidateReceipt r prev []) @ map (\<lambda>(code, message, color). code @ '': '' @ message) later"
    by (simp add: ValidateReceipt_def Let_def foldl_addError_Errors)
  have red: "Color (ValidateReceipt r prev []) = Some ValidationColorRed
             \<Longrightarrow> Color (ValidateReceipt r prev later) = Some ValidationColorRed"
    by (simp add: ValidateReceipt_def Let_def foldl_addError_keeps_Red)
  have some: "\<And>p. prev = Some p \<Longrightarrow>
      (''RCPT011: Receipt counter is not sequential'' \<in> set (Errors (ValidateReceipt r prev []))
         \<longleftrightarrow> ReceiptCounter r \<noteq> wrap64 (ReceiptCounter p + 1))
    \<and> (''RCPT012: Receipt global number is not sequential'' \<in> set (Errors (ValidateReceipt r prev []))
         \<longleftrightarrow> ReceiptGlobalNo r \<noteq> wrap64 (ReceiptGlobalNo p + 1) \<and> ReceiptGlobalNo r \<noteq> 1)
    \<and> (ReceiptCounter r \<noteq> wrap64 (ReceiptCounter p + 1)
        \<or> ReceiptGlobalNo r \<noteq> wrap64 (ReceiptGlobalNo p + 1) \<and> ReceiptGlobalNo r \<noteq> 1
        \<longrightarrow> Color (ValidateReceipt r prev []) = Some ValidationColorRed)"
    by (auto simp: rule_defs Let_def addError_def split: option.splits)
  have none: "prev = None \<Longrightarrow>
      (''RCPT011: Receipt counter is not sequential'' \<in> set (Errors (ValidateReceipt r prev []))
         \<longleftrightarrow> ReceiptCounter r \<noteq> 1)
    \<and> (''RCPT012: Receipt global number is not sequential'' \<in> set (Errors (ValidateReceipt r prev []))
         \<longleftrightarrow> ReceiptGlobalNo r \<noteq> 1 \<and> ReceiptCounter r \<noteq> 1)
    \<and> (ReceiptCounter r \<noteq> 1 \<and> isValidCurrency (ReceiptCurrency r)
        \<longrightarrow> Color (ValidateReceipt r prev []) = Some ValidationColorGrey)"
    by (auto simp: rule_defs Let_def addError_def split: option.splits)
  show ?thesis using later red some none by blast
qed


lemmas submit_defs = SubmitReceipt_def GetByGlobalNo_def lookup_previous_def GetPreviousReceipt_def
  isValidCurrency_def addError_def GenerateReceiptHash_def GenerateReceiptHash_data_def write_tax_def
  tax_less_def tax_code_or_empty_def generateServerSignature_def CreateWithLines_def
  receipt_fits_columns_def fits_numeric_def numeric_2_def round_half_away_def

lemma store_one_is_submitted:
  "SubmitReceipt env_a store_open req_a
     = (Inr \<lparr>Submit_OperationID = ''operation-a'', Submit_ReceiptID = 1, Submit_ServerDate = time_0,
             Submit_ReceiptServerSignature = signature_a\<rparr>, store_one)"
  by (simp add: submit_defs rule_defs repo_defs prim_defs ex_defs)

text \<open>
  Claim C8 as stated fails twice. A receipt with global number 1 that follows a
  predecessor with global number 5 raises no RCPT012, although 1 differs from 5 + 1. A
  receipt without predecessor, with counter 1 and global number 7, raises no error at all.
\<close>

theorem C8_exactly_when_counterexample:
  "ReceiptGlobalNo (rcpt_a\<lparr>ReceiptCounter := 2\<rparr>) \<noteq> ReceiptGlobalNo (rcpt_a\<lparr>ReceiptGlobalNo := 5\<rparr>) + 1
   \<and> Errors (ValidateReceipt (rcpt_a\<lparr>ReceiptCounter := 2\<rparr>) (Some (rcpt_a\<lparr>ReceiptGlobalNo := 5\<rparr>)) []) = []
   \<and> ReceiptGlobalNo (rcpt_a\<lparr>ReceiptGlobalNo := 7\<rparr>) \<noteq> 1
   \<and> Errors (ValidateReceipt (rcpt_a\<lparr>ReceiptGlobalNo := 7\<rparr>) None []) = []
   \<and> Color (ValidateReceipt (rcpt_a\<lparr>ReceiptGlobalNo := 7\<rparr>) None []) = None"
  by (simp add: rule_defs isValidCurrency_def wrap64_def rcpt_a_def ToUpper_def upper_char_def)

theorem C8_counter_continuity_witness:
  "ReceiptCounter (rcpt_a\<lparr>ReceiptCounter := 3, ReceiptGlobalNo := 3\<rparr>) \<noteq> wrap64 (ReceiptCounter rcpt_a + 1)
   \<and> ''RCPT011: Receipt counter is not sequential''
       \<in> set (Errors (ValidateReceipt (rcpt_a\<lparr>ReceiptCounter := 3, ReceiptGlobalNo := 3\<rparr>) (Some rcpt_a) []))
   \<and> Color (ValidateReceipt (rcpt_a\<lparr>ReceiptCounter := 3, ReceiptGlobalNo := 3\<rparr>) (Some rcpt_a) [])
       = Some ValidationColorRed
   \<and> ''RCPT011: Receipt counter is not sequential''
       \<in> set (Errors (ValidateReceipt (rcpt_a\<lparr>ReceiptCounter := 3, ReceiptGlobalNo := 3\<rparr>) None []))
   \<and> Color (ValidateReceipt (rcpt_a\<lparr>ReceiptCounter := 3, ReceiptGlobalNo := 3\<rparr>) None [])
       = Some ValidationColorGrey"
proof -
  let ?r = "rcpt_a\<lparr>ReceiptCounter := 3, ReceiptGlobalNo := 3\<rparr>"
  have c: "ReceiptCounter ?r \<noteq> wrap64 (ReceiptCounter rcpt_a + 1)"
    by (simp add: rcpt_a_def wrap64_def)
  have c1: "ReceiptCounter ?r \<noteq> 1" by simp
  have cur: "isValidCurrency (ReceiptCurrency ?r)"
    by (simp add: isValidCurrency_def rcpt_a_def ToUpper_def upper_char_def)
  show ?thesis
    using c c1 cur C8_counter_continuity [of "Some rcpt_a" ?r "[]"]
      C8_counter_continuity [of None ?r "[]"]
    by blast
qed






text \<open>
  Claim C2, evaluated where global number 1 of device 1001 is stored and a receipt with
  the same number and another total arrives, so that the freshly computed hash differs
  from the stored one. On the row as \<open>SubmitReceipt\<close> itself stored it the call panics (the
  row has no server date); on a row that carries server date and signature the call
  answers with the stored signature. Neither is the rejection RCPT04.
\<close>

theorem C2_duplicate_with_other_payload_not_rejected:
  "SubmitReceipt env_b store_one req_a_changed
     = (Inl (Panic ''invalid memory address or nil pointer dereference''), store_one)
   \<and> SubmitReceipt env_b store_signed req_a_changed
     = (Inr \<lparr>Submit_OperationID = ''operation-b'', Submit_ReceiptID = 1, Submit_ServerDate = time_0,
             Submit_ReceiptServerSignature = signature_a\<rparr>, store_signed)
   \<and> GenerateReceiptHash (sha256_Sum256 env_b) (Req_Receipt req_a_changed) [] \<noteq> ReceiptHash row_a"
  by (simp add: submit_defs repo_defs prim_defs ex_defs)

lemma SubmitReceipt_never_RCPT04:
  "fst (SubmitReceipt env s req) \<noteq> Inl (APIError n m ''RCPT04'')"
  by (simp add: SubmitReceipt_def Let_def split: option.splits prod.splits)

subsection \<open>Receipt submission\<close>




lemma Update_other [simp]:
  "receipts (fiscalDayRepository_Update s fd) = receipts s"
  "devices (fiscalDayRepository_Update s fd) = devices s"
  "fiscal_counters (fiscalDayRepository_Update s fd) = fiscal_counters s"
  "fiscal_days_id_seq (fiscalDayRepository_Update s fd) = fiscal_days_id_seq s"
  by (simp_all add: fiscalDayRepository_Update_def)

lemma update_row_keys [simp]:
  "FiscalDay_DeviceID (update_row fd d) = FiscalDay_DeviceID d"
  "FiscalDayNo (update_row fd d) = FiscalDayNo d"
  "FiscalDay_ID (update_row fd d) = FiscalDay_ID d"
  by (simp_all add: update_row_def)

























subsection \<open>Manual reconciliation\<close>








lemma CreateCounters_fiscal_days [simp]:
  "fiscal_days (CreateCounters s d cs) = fiscal_days s"
  by (simp add: CreateCounters_def)





subsection \<open>Opening a fiscal day\<close>























end
